theory Spec2Isabelle
  imports Main "HOL-Library.Word"
begin

section \<open>utils.cpp: statuses and replies of the transport turned into exceptions\<close>

text \<open>
  Every failure of the library is raised as a \<^verbatim>\<open>std::runtime_error\<close> whose text is
  formatted from the calling site's name and the library's diagnostic. The model keeps
  the parts the text is formatted from, one constructor per \<^verbatim>\<open>throw\<close> of utils.cpp.
\<close>

datatype runtime_error =
    Die string
  | Status_error string int
  | Missing_reply_type string
  | Library_exception string int
  | Server_connection_error string "16 word" string
  | Server_channel_error string "16 word" string
  | Unknown_server_error string "32 word"

text \<open>\<^verbatim>\<open>void die_on_error(int x, char const *context)\<close>: throws when \<^verbatim>\<open>x < 0\<close>.\<close>

definition die_on_error :: "int \<Rightarrow> string \<Rightarrow> runtime_error + unit" where
  "die_on_error x ctxt = (if x < 0 then Inl (Status_error ctxt x) else Inr ())"

datatype amqp_response_type_enum =
    AMQP_RESPONSE_NONE
  | AMQP_RESPONSE_NORMAL
  | AMQP_RESPONSE_LIBRARY_EXCEPTION
  | AMQP_RESPONSE_SERVER_EXCEPTION

text \<open>The decoded method of a server exception: its id selects the branch of the inner switch.\<close>

datatype amqp_method =
    AMQP_CONNECTION_CLOSE_METHOD "16 word" string
  | AMQP_CHANNEL_CLOSE_METHOD "16 word" string
  | Other_method "32 word"

record amqp_rpc_reply_t =
  reply_type :: amqp_response_type_enum
  reply :: amqp_method
  library_error :: int

fun die_on_amqp_error :: "amqp_rpc_reply_t \<Rightarrow> string \<Rightarrow> runtime_error + unit" where
  "die_on_amqp_error x ctxt =
     (case reply_type x of
        AMQP_RESPONSE_NORMAL \<Rightarrow> Inr ()
      | AMQP_RESPONSE_NONE \<Rightarrow> Inl (Missing_reply_type ctxt)
      | AMQP_RESPONSE_LIBRARY_EXCEPTION \<Rightarrow> Inl (Library_exception ctxt (library_error x))
      | AMQP_RESPONSE_SERVER_EXCEPTION \<Rightarrow>
          (case reply x of
             AMQP_CONNECTION_CLOSE_METHOD code txt \<Rightarrow> Inl (Server_connection_error ctxt code txt)
           | AMQP_CHANNEL_CLOSE_METHOD code txt \<Rightarrow> Inl (Server_channel_error ctxt code txt)
           | Other_method mid \<Rightarrow> Inl (Unknown_server_error ctxt mid)))"

section \<open>common.cpp: channel operations\<close>

type_synonym amqp_channel_t = "16 word"

text \<open>
  A channel holds its number and a pointer to its connection (here the connection's
  handle). The field \<^verbatim>\<open>id\<close> is named \<open>chan_id\<close>, since \<open>id\<close> is the identity of HOL.
\<close>

record Channel =
  chan_id :: amqp_channel_t
  connection :: nat

text \<open>
  The primitives of the transport are parameters of the operations that call them: a
  theorem about an operation then holds for whatever the library answers. Each takes the
  arguments of the C function after the connection state, in the C function's order.

  \<^verbatim>\<open>int Channel::ack(uint64_t delivery_tag, bool multiple)\<close> and
  \<^verbatim>\<open>int Channel::nack(uint64_t delivery_tag, bool multiple, bool requeue)\<close>:
  \<^verbatim>\<open>auto res = amqp_basic_ack(...); die_on_error(res, "basic.ack"); return res;\<close>
\<close>

definition ack ::
  "(amqp_channel_t \<Rightarrow> 64 word \<Rightarrow> bool \<Rightarrow> int) \<Rightarrow> Channel \<Rightarrow> 64 word \<Rightarrow> bool \<Rightarrow> runtime_error + int" where
  "ack amqp_basic_ack this delivery_tag multiple =
     (let res = amqp_basic_ack (chan_id this) delivery_tag multiple in
      case die_on_error res ''basic.ack'' of
        Inl e \<Rightarrow> Inl e
      | Inr _ \<Rightarrow> Inr res)"

definition nack ::
  "(amqp_channel_t \<Rightarrow> 64 word \<Rightarrow> bool \<Rightarrow> bool \<Rightarrow> int) \<Rightarrow> Channel \<Rightarrow> 64 word \<Rightarrow> bool \<Rightarrow> bool
     \<Rightarrow> runtime_error + int" where
  "nack amqp_basic_nack this delivery_tag multiple requeue =
     (let res = amqp_basic_nack (chan_id this) delivery_tag multiple requeue in
      case die_on_error res ''basic.nack'' of
        Inl e \<Rightarrow> Inl e
      | Inr _ \<Rightarrow> Inr res)"

text \<open>
  \<^verbatim>\<open>void Channel::qos(uint32_t prefetch_size, uint16_t prefetch_count, bool global)\<close>.

  Modelled from the spec: the library's declaration of \<^verbatim>\<open>amqp_basic_qos\<close> is not among
  the sources; section 6 gives the primitive as
  \<^verbatim>\<open>setQos(prefetchSize, prefetchCount, global)\<close>, which is the order of the AMQP method
  and of the library: the channel, a 32-bit prefetch size, a 16-bit prefetch count, the
  global flag. It answers a pointer, null on failure; the model keeps whether it is not
  null.

  The call of the source is
  \<^verbatim>\<open>amqp_basic_qos(connection->state, id, prefetch_count, prefetch_size, global)\<close>:
  each argument is converted to the type of the parameter it lands on.
\<close>

definition qos ::
  "(amqp_channel_t \<Rightarrow> 32 word \<Rightarrow> 16 word \<Rightarrow> bool \<Rightarrow> bool) \<Rightarrow> amqp_rpc_reply_t \<Rightarrow> Channel
     \<Rightarrow> 32 word \<Rightarrow> 16 word \<Rightarrow> bool \<Rightarrow> runtime_error + unit" where
  "qos amqp_basic_qos amqp_get_rpc_reply this prefetch_size prefetch_count global =
     (if \<not> amqp_basic_qos (chan_id this) (ucast prefetch_count) (ucast prefetch_size) global
      then die_on_amqp_error amqp_get_rpc_reply ''basic.qos''
      else Inr ())"

section \<open>message_broker.hpp: properties, messages and responses\<close>

text \<open>\<^verbatim>\<open>struct AmqpProperties\<close>: thirteen optional fields, in the header's order.\<close>

record AmqpProperties =
  content_type :: "string option"
  content_encoding :: "string option"
  delivery_mode :: "8 word option"
  priority :: "8 word option"
  correlation_id :: "string option"
  reply_to :: "string option"
  expiration :: "string option"
  message_id :: "string option"
  timestamp :: "64 word option"
  type :: "string option"
  user_id :: "string option"
  app_id :: "string option"
  cluster_id :: "string option"

text \<open>A default-constructed \<^verbatim>\<open>AmqpProperties\<close>: every \<^verbatim>\<open>std::optional\<close> is empty.\<close>

definition AmqpProperties_default :: AmqpProperties where
  "AmqpProperties_default =
     \<lparr>content_type = None, content_encoding = None, delivery_mode = None, priority = None,
      correlation_id = None, reply_to = None, expiration = None, message_id = None,
      timestamp = None, type = None, user_id = None, app_id = None, cluster_id = None\<rparr>"

text \<open>
  \<^verbatim>\<open>class AmqpMessage\<close> gives access to a body and to the properties; \<^verbatim>\<open>Request\<close> and
  \<^verbatim>\<open>Response\<close> derive from it and add no field.
\<close>

record AmqpMessage =
  body :: string
  properties :: AmqpProperties

type_synonym Request = AmqpMessage
type_synonym Response = AmqpMessage

text \<open>The constants are declared with their values in the header's comments.\<close>

definition MESSAGE_TYPE_REQUEST :: string where
  "MESSAGE_TYPE_REQUEST = ''request''"

definition MESSAGE_TYPE_RESPONSE :: string where
  "MESSAGE_TYPE_RESPONSE = ''response''"

definition MESSAGE_TYPE_ERROR :: string where
  "MESSAGE_TYPE_ERROR = ''error''"

text \<open>
  \<^verbatim>\<open>inline bool ok() const { return properties().type != MESSAGE_TYPE_ERROR; }\<close>
  compares a \<^verbatim>\<open>std::optional<std::string>\<close> with a value: an empty optional differs from
  every value, an engaged one is compared by its content.
\<close>

definition ok :: "Response \<Rightarrow> bool" where
  "ok this = (case type (properties this) of
                None \<Rightarrow> True
              | Some t \<Rightarrow> t \<noteq> MESSAGE_TYPE_ERROR)"

section \<open>common.cpp: the connection's dispatch loop\<close>

text \<open>
  The library's property structure, with the fields the sources read or write. The
  \<^verbatim>\<open>_flags\<close> bit mask is the list of the flags that are set.
\<close>

datatype amqp_basic_flag =
    AMQP_BASIC_CONTENT_TYPE_FLAG
  | AMQP_BASIC_DELIVERY_MODE_FLAG
  | AMQP_BASIC_REPLY_TO_FLAG
  | AMQP_BASIC_CORRELATION_ID_FLAG

record amqp_basic_properties_t =
  props_flags :: "amqp_basic_flag list"
  props_content_type :: string
  props_delivery_mode :: "8 word"
  props_reply_to :: string
  props_correlation_id :: string

record amqp_message_t =
  message_properties :: amqp_basic_properties_t
  message_body :: string

record amqp_envelope_t =
  channel :: amqp_channel_t
  consumer_tag :: string
  delivery_tag :: "64 word"
  redelivered :: bool
  exchange :: string
  routing_key :: string
  message :: amqp_message_t

text \<open>
  Modelled from the spec: common.h, which declares \<^verbatim>\<open>Connection\<close> and \<^verbatim>\<open>Channel\<close>, is not
  among the sources. The registry \<^verbatim>\<open>pool\<close> is used as a standard map from channel ids to
  \<^verbatim>\<open>Channel*\<close> (\<^verbatim>\<open>pool[id] = this\<close>, \<^verbatim>\<open>pool.erase(id)\<close>, \<^verbatim>\<open>pool.clear()\<close>,
  \<^verbatim>\<open>pool.empty()\<close>); section 3 calls it the channel registry, id to Channel, a weak
  back-reference. It is an association list with one entry per key. The inbound queue of
  a channel keeps the order of arrival (section 5): \<^verbatim>\<open>push_envelope\<close> appends.
\<close>

datatype channel_ptr = nullptr | Ptr nat

record Channel_object = Channel +
  envelopes :: "amqp_envelope_t list"

definition push_envelope :: "Channel_object \<Rightarrow> amqp_envelope_t \<Rightarrow> Channel_object" where
  "push_envelope this envelope = this\<lparr>envelopes := envelopes this @ [envelope]\<rparr>"

record Connection =
  pool :: "(amqp_channel_t \<times> channel_ptr) list"
  run :: bool

text \<open>
  \<^verbatim>\<open>operator[]\<close> of the map: the value stored under the key; a key that is absent is
  first inserted with a value-initialised pointer, which is null.
\<close>

definition pool_index ::
  "(amqp_channel_t \<times> channel_ptr) list \<Rightarrow> amqp_channel_t
     \<Rightarrow> channel_ptr \<times> (amqp_channel_t \<times> channel_ptr) list" where
  "pool_index m k = (case map_of m k of
                       Some p \<Rightarrow> (p, m)
                     | None \<Rightarrow> (nullptr, m @ [(k, nullptr)]))"

text \<open>The calls an iteration makes on the transport, in order.\<close>

datatype amqp_call = Amqp_maybe_release_buffers | Amqp_consume_message

text \<open>
  An iteration of the worker either goes on to the next one or dereferences a pointer
  that points to no channel (null or dangling), which is undefined behaviour.
\<close>

datatype 's step = Continue 's | Fault 's

text \<open>
  The body of \<^verbatim>\<open>while (run) { ... }\<close>, under the connection's lock. The channel objects
  live in a heap, a list indexed by address. \<open>answer\<close> is what \<^verbatim>\<open>amqp_consume_message\<close>
  returns if this iteration calls it: the reply and the envelope it fills.
\<close>

definition dispatch_iteration ::
  "Connection \<Rightarrow> Channel_object list \<Rightarrow> amqp_rpc_reply_t \<times> amqp_envelope_t
     \<Rightarrow> amqp_call list \<times> (Connection \<times> Channel_object list) step" where
  "dispatch_iteration this heap answer =
     (if pool this \<noteq> [] then
        (let res = fst answer; envelope = snd answer;
             calls = [Amqp_maybe_release_buffers, Amqp_consume_message] in
         if AMQP_RESPONSE_NORMAL \<noteq> reply_type res then (calls, Continue (this, heap))
         else
           (let found = pool_index (pool this) (channel envelope);
                this' = this\<lparr>pool := snd found\<rparr> in
            case fst found of
              nullptr \<Rightarrow> (calls, Fault (this', heap))
            | Ptr a \<Rightarrow>
                if a < length heap
                then (calls, Continue (this', heap[a := push_envelope (heap ! a) envelope]))
                else (calls, Fault (this', heap))))
      else ([], Continue (this, heap)))"

text \<open>
  The worker thread, run on the answers of the transport to come, one for each iteration.
  It stops when \<open>run\<close> is false or at a fault; when the answers are used up the loop is
  still running.
\<close>

fun worker ::
  "Connection \<Rightarrow> Channel_object list \<Rightarrow> (amqp_rpc_reply_t \<times> amqp_envelope_t) list
     \<Rightarrow> amqp_call list \<times> (Connection \<times> Channel_object list) step" where
  "worker this heap [] = ([], Continue (this, heap))"
| "worker this heap (answer # answers) =
     (if run this then
        (case dispatch_iteration this heap answer of
           (calls, Continue (this', heap')) \<Rightarrow>
             (let rest = worker this' heap' answers in (calls @ fst rest, snd rest))
         | (calls, Fault s) \<Rightarrow> (calls, Fault s))
      else ([], Continue (this, heap)))"

section \<open>common.cpp: channel ids\<close>

text \<open>
  \<^verbatim>\<open>static uint16_t serial = 0;\<close> is one counter for the process.
  \<^verbatim>\<open>Channel::Channel(Connection *connection)\<close> increments it, takes the new value as its
  id, opens the channel and throws when the reply is not normal; the counter keeps the
  increment then. \<open>open_reply\<close> is the reply to \<^verbatim>\<open>amqp_channel_open\<close>.
\<close>

definition Channel_new ::
  "16 word \<Rightarrow> nat \<Rightarrow> amqp_rpc_reply_t \<Rightarrow> 16 word \<times> (runtime_error + Channel_object)" where
  "Channel_new serial conn open_reply =
     (let serial' = serial + 1;
          this = \<lparr>chan_id = serial', connection = conn, envelopes = []\<rparr> in
      (serial', case die_on_amqp_error open_reply ''Opening channel'' of
                  Inl e \<Rightarrow> Inl e
                | Inr _ \<Rightarrow> Inr this))"

text \<open>
  A process constructs and destroys channels, one after the other, on any of its
  connections. Its state is the counter and the channels that are alive. \<open>Destroy i\<close>
  destroys the channel at position \<open>i\<close> of the alive ones.
\<close>

record process =
  serial :: "16 word"
  alive :: "Channel_object list"

datatype event = Construct nat amqp_rpc_reply_t | Destroy nat

definition initial :: process where
  "initial = \<lparr>serial = 0, alive = []\<rparr>"

fun drop_nth :: "nat \<Rightarrow> 'a list \<Rightarrow> 'a list" where
  "drop_nth i xs = take i xs @ drop (Suc i) xs"

fun perform :: "process \<Rightarrow> event \<Rightarrow> process" where
  "perform p (Construct conn open_reply) =
     (case Channel_new (serial p) conn open_reply of
        (s, Inl e) \<Rightarrow> p\<lparr>serial := s\<rparr>
      | (s, Inr this) \<Rightarrow> p\<lparr>serial := s, alive := alive p @ [this]\<rparr>)"
| "perform p (Destroy i) = p\<lparr>alive := drop_nth i (alive p)\<rparr>"

fun execute :: "process \<Rightarrow> event list \<Rightarrow> process" where
  "execute p [] = p"
| "execute p (e # es) = execute (perform p e) es"

fun is_Construct :: "event \<Rightarrow> bool" where
  "is_Construct (Construct conn open_reply) = True"
| "is_Construct (Destroy i) = False"

definition normal_reply :: amqp_rpc_reply_t where
  "normal_reply = \<lparr>reply_type = AMQP_RESPONSE_NORMAL, reply = Other_method 0, library_error = 0\<rparr>"

section \<open>message-broker.cpp: queries\<close>

text \<open>
  This file (src/unnamed/part_001) is the client and the server of the request/reply
  pattern written directly on the library. A query is the triplet id, type, body; the
  body is a JSON node, of a type \<open>'j\<close> left open, and \<open>None\<close> while the pointer has
  not been set.
\<close>

definition QUERY_REQUEST :: string where
  "QUERY_REQUEST = ''request''"

definition QUERY_RESPONSE :: string where
  "QUERY_RESPONSE = ''response''"

definition QUERY_ERROR :: string where
  "QUERY_ERROR = ''error''"

record 'j QueryInterface =
  q_id :: int
  q_type :: string
  q_body :: "'j option"

text \<open>\<^verbatim>\<open>QueryInterface::QueryInterface() : _id(0)\<close>: the type is the empty string.\<close>

definition QueryInterface_default :: "'j QueryInterface" where
  "QueryInterface_default = \<lparr>q_id = 0, q_type = [], q_body = None\<rparr>"

text \<open>
  How a call ends: it returns a value, throws, aborts the process (\<^verbatim>\<open>abort()\<close>, a failed
  \<^verbatim>\<open>assert\<close> or \<^verbatim>\<open>std::terminate\<close>), reads memory that holds nothing it may read (a
  member of a frame that the frame does not hold, an uninitialised pointer, a buffer
  past its end), has undefined behaviour of another kind, or never returns because the
  library waits for something that does not come.
\<close>

datatype 'r outcome =
    Returned 'r
  | Thrown runtime_error
  | Aborted
  | Undefined_read
  | Undefined_behaviour
  | Blocked

text \<open>Sequencing: the second statement runs on what the first returns, if it returns.\<close>

fun and_then :: "'a outcome \<Rightarrow> ('a \<Rightarrow> 'b outcome) \<Rightarrow> 'b outcome" where
  "and_then (Returned x) f = f x"
| "and_then (Thrown e) f = Thrown e"
| "and_then Aborted f = Aborted"
| "and_then Undefined_read f = Undefined_read"
| "and_then Undefined_behaviour f = Undefined_behaviour"
| "and_then Blocked f = Blocked"

text \<open>
  \<^verbatim>\<open>bool QueryInterface::set_type(const char* type) { _type = type; }\<close>: the function
  assigns the type and then flows off the end of a function that returns a \<^verbatim>\<open>bool\<close>,
  which is undefined behaviour in C++ whether or not the caller reads the value. The
  model gives the object after the assignment and how the call ends.
\<close>

definition set_type :: "'j QueryInterface \<Rightarrow> string \<Rightarrow> 'j QueryInterface \<times> bool outcome" where
  "set_type this t = (this\<lparr>q_type := t\<rparr>, Undefined_behaviour)"

text \<open>
  The JSON library is outside the repository; what it answers is a record of functions.
  \<open>parse\<close> is \<^verbatim>\<open>json_parser_load_from_data\<close> followed by the copy of the root (\<open>None\<close>
  when the text does not parse). \<open>generate\<close> is the builder and the generator of
  \<^verbatim>\<open>json_str()\<close>: the text of the object with the members id, type and body. The three
  readers are what the \<^verbatim>\<open>JsonReader\<close> of the constructor gives for a member of the
  parsed text: \<^verbatim>\<open>json_reader_get_int_value\<close>, \<^verbatim>\<open>json_reader_get_string_value\<close>
  (\<open>None\<close> for a null pointer: the text did not parse, or has no such string member)
  and the object rebuilt by \<^verbatim>\<open>build_json_from_json_reader\<close>.
\<close>

record 'j json_glib =
  parse :: "string \<Rightarrow> 'j option"
  generate :: "int \<Rightarrow> string \<Rightarrow> 'j \<Rightarrow> string"
  reader_int :: "string \<Rightarrow> string \<Rightarrow> int"
  reader_string :: "string \<Rightarrow> string \<Rightarrow> string option"
  reader_object :: "string \<Rightarrow> string \<Rightarrow> 'j"

text \<open>\<^verbatim>\<open>bool QueryInterface::set_body(const char* json_str)\<close>\<close>

definition set_body :: "'j json_glib \<Rightarrow> 'j QueryInterface \<Rightarrow> string \<Rightarrow> bool \<times> 'j QueryInterface" where
  "set_body lib this text =
     (case parse lib text of
        None \<Rightarrow> (False, this)
      | Some node \<Rightarrow> (True, this\<lparr>q_body := Some node\<rparr>))"

text \<open>
  \<^verbatim>\<open>char* QueryInterface::json_str() const\<close> copies the body node: a body that was never
  set is an uninitialised pointer.
\<close>

definition json_str :: "'j json_glib \<Rightarrow> 'j QueryInterface \<Rightarrow> string outcome" where
  "json_str lib this =
     (case q_body this of
        None \<Rightarrow> Undefined_read
      | Some node \<Rightarrow> Returned (generate lib (q_id this) (q_type this) node))"

text \<open>
  The constructor \<^verbatim>\<open>QueryInterface(const char* json_str)\<close>: it reads the member id, hands
  the string of the member type to \<open>set_type\<close> (a null pointer when there is none, which
  the assignment to the \<^verbatim>\<open>std::string\<close> may not take), and copies the object rebuilt
  from the member body.
\<close>

definition QueryInterface_of_json :: "'j json_glib \<Rightarrow> string \<Rightarrow> 'j QueryInterface outcome" where
  "QueryInterface_of_json lib text =
     (let this = QueryInterface_default\<lparr>q_id := reader_int lib text ''id''\<rparr> in
      case reader_string lib text ''type'' of
        None \<Rightarrow> Undefined_behaviour
      | Some t \<Rightarrow>
          and_then (snd (set_type this t))
            (\<lambda>_. Returned ((fst (set_type this t))
                               \<lparr>q_body := Some (reader_object lib text ''body'')\<rparr>)))"

section \<open>message-broker.cpp: the transport seen by send and listen\<close>

text \<open>
  A frame as \<^verbatim>\<open>amqp_simple_wait_frame\<close> fills it: the frame type selects the member of
  the payload. A method frame carries the method id, a header frame the declared body
  size and the decoded properties, a body frame a fragment of bytes.
\<close>

datatype amqp_frame =
    Method_frame "32 word"
  | Header_frame nat amqp_basic_properties_t
  | Body_frame string
  | Heartbeat_frame

definition AMQP_BASIC_DELIVER_METHOD :: "32 word" where
  "AMQP_BASIC_DELIVER_METHOD = 0x003C003C"

text \<open>The arguments of one \<^verbatim>\<open>amqp_basic_publish\<close>, after the connection state.\<close>

record basic_publish_args =
  pub_channel :: amqp_channel_t
  pub_exchange :: string
  pub_routing_key :: string
  pub_mandatory :: bool
  pub_immediate :: bool
  pub_properties :: amqp_basic_properties_t
  pub_body :: string

text \<open>
  What the library answers to the requests of \<open>send\<close> and \<open>listen\<close>: the reply to the
  queue declaration and the name of the queue declared, the copy made by
  \<^verbatim>\<open>amqp_bytes_malloc_dup\<close> (\<open>None\<close> for a null pointer), the reply to the binding, the
  status of a publish, the reply to \<^verbatim>\<open>amqp_basic_consume\<close>.
\<close>

record amqp_connection =
  queue_declare_reply :: amqp_rpc_reply_t
  queue_declare_queue :: string
  amqp_bytes_malloc_dup :: "string \<Rightarrow> string option"
  queue_bind_reply :: amqp_rpc_reply_t
  amqp_basic_publish :: "basic_publish_args \<Rightarrow> int"
  basic_consume_reply :: amqp_rpc_reply_t

section \<open>message-broker.cpp: send\<close>

text \<open>
  \<^verbatim>\<open>response = std::make_shared<MessageBroker::Response>(json_str)\<close>: the response
  returned is the one the constructor leaves, if the constructor returns.
\<close>

definition make_shared :: "'r outcome \<Rightarrow> 'r option outcome" where
  "make_shared constructed = and_then constructed (\<lambda>r. Returned (Some r))"

text \<open>
  \<^verbatim>\<open>json_str = strdup(fragment.bytes); json_str[fragment.len] = 0\<close>: the copy runs from the
  fragment's first byte to the first zero byte and is then cut at the fragment's length.
  For a fragment with no zero byte the text is the fragment (the frame lies in the
  library's buffer, where the copy is taken to find a zero byte after the fragment); for
  a fragment with a zero byte the copy is shorter than the fragment and the assignment
  writes past its end.
\<close>

definition fragment_text :: "string \<Rightarrow> string outcome" where
  "fragment_text fragment =
     (if CHR 0x00 \<in> set fragment then Undefined_behaviour else Returned fragment)"

text \<open>
  The inbound side of a call is the list of the results of the \<^verbatim>\<open>amqp_simple_wait_frame\<close>
  calls to come, each a status and the frame filled; after the last one nothing arrives
  any more and the next wait does not return.

  The inner loop \<^verbatim>\<open>while (body_received < body_target)\<close>, with the statements that follow
  it. \<open>frame\<close> is the frame variable as the last wait left it. A failed wait leaves the
  loop with the body incomplete, and \<open>send\<close> returns the null response. The response is
  constructed from the text of \<^verbatim>\<open>frame.payload.body_fragment\<close>; \<open>Response\<close> is the
  constructor, a function from the text to how the construction ends.
\<close>

fun send_wait_body ::
  "(string \<Rightarrow> 'r outcome) \<Rightarrow> nat \<Rightarrow> nat \<Rightarrow> amqp_frame \<Rightarrow> (int \<times> amqp_frame) list
     \<Rightarrow> 'r option outcome" where
  "send_wait_body Response body_target body_received frame [] =
     (if body_received < body_target then Blocked
      else if body_received \<noteq> body_target then Returned None
      else (case frame of
              Body_frame fragment \<Rightarrow> make_shared (and_then (fragment_text fragment) Response)
            | _ \<Rightarrow> Undefined_read))"
| "send_wait_body Response body_target body_received frame ((result, frame') # waits) =
     (if body_received < body_target then
        (if result < 0 then Returned None
         else (case frame' of
                 Body_frame fragment \<Rightarrow>
                   if body_received + length fragment \<le> body_target
                   then send_wait_body Response body_target (body_received + length fragment)
                          frame' waits
                   else Aborted
               | _ \<Rightarrow> Aborted))
      else if body_received \<noteq> body_target then Returned None
      else (case frame of
              Body_frame fragment \<Rightarrow> make_shared (and_then (fragment_text fragment) Response)
            | _ \<Rightarrow> Undefined_read))"

text \<open>The wait for the header frame that follows a delivery.\<close>

fun send_wait_header ::
  "(string \<Rightarrow> 'r outcome) \<Rightarrow> (int \<times> amqp_frame) list \<Rightarrow> 'r option outcome" where
  "send_wait_header Response [] = Blocked"
| "send_wait_header Response ((result, frame) # waits) =
     (if result < 0 then Returned None
      else (case frame of
              Header_frame body_size p \<Rightarrow> send_wait_body Response body_size 0 frame waits
            | _ \<Rightarrow> Aborted))"

text \<open>
  The outer loop \<^verbatim>\<open>for(;;)\<close>: it goes round on every frame that is not the method
  \<^verbatim>\<open>basic.deliver\<close> and leaves after the first delivery, whatever else happens.
\<close>

fun send_wait_method ::
  "(string \<Rightarrow> 'r outcome) \<Rightarrow> (int \<times> amqp_frame) list \<Rightarrow> 'r option outcome" where
  "send_wait_method Response [] = Blocked"
| "send_wait_method Response ((result, frame) # waits) =
     (if result < 0 then Returned None
      else (case frame of
              Method_frame method_id \<Rightarrow>
                if method_id \<noteq> AMQP_BASIC_DELIVER_METHOD
                then send_wait_method Response waits
                else send_wait_header Response waits
            | _ \<Rightarrow> send_wait_method Response waits))"

text \<open>The properties \<open>send\<close> publishes the request with.\<close>

definition send_props :: "string \<Rightarrow> amqp_basic_properties_t" where
  "send_props reply_to_queue =
     \<lparr>props_flags = [AMQP_BASIC_CONTENT_TYPE_FLAG, AMQP_BASIC_DELIVERY_MODE_FLAG,
                     AMQP_BASIC_REPLY_TO_FLAG, AMQP_BASIC_CORRELATION_ID_FLAG],
      props_content_type = ''application/json'',
      props_delivery_mode = 2,
      props_reply_to = reply_to_queue,
      props_correlation_id = ''1''\<rparr>"

text \<open>The request handed to \<^verbatim>\<open>amqp_basic_publish\<close>; \<open>messagebody\<close> is the text of the request.\<close>

definition send_request :: "string \<Rightarrow> string \<Rightarrow> string \<Rightarrow> string \<Rightarrow> basic_publish_args" where
  "send_request exchange_name routingkey messagebody reply_to_queue =
     \<lparr>pub_channel = 1, pub_exchange = exchange_name, pub_routing_key = routingkey,
      pub_mandatory = False, pub_immediate = False,
      pub_properties = send_props reply_to_queue, pub_body = messagebody\<rparr>"

text \<open>
  \<^verbatim>\<open>Response::Ptr MessageBroker::send(const char *exchange, const char *routingkey,
  const char *message)\<close>: the request is a default query with the message as body
  (\<^verbatim>\<open>request.set_body(message)\<close>, its verdict is not read), and its text is generated
  before anything is asked from the transport.
\<close>

definition send ::
  "'j json_glib \<Rightarrow> amqp_connection \<Rightarrow> (int \<times> amqp_frame) list \<Rightarrow> string \<Rightarrow> string \<Rightarrow> string
     \<Rightarrow> 'j QueryInterface option outcome" where
  "send lib conn waits exchange_name routingkey message_text =
     and_then (json_str lib (snd (set_body lib QueryInterface_default message_text)))
       (\<lambda>messagebody.
     (case die_on_amqp_error (queue_declare_reply conn) ''Declaring queue'' of
        Inl e \<Rightarrow> Thrown e
      | Inr _ \<Rightarrow>
     (case amqp_bytes_malloc_dup conn (queue_declare_queue conn) of
        None \<Rightarrow> Returned None
      | Some reply_to_queue \<Rightarrow>
     (case amqp_bytes_malloc_dup conn reply_to_queue of
        None \<Rightarrow> Returned None
      | Some reply_to_copy \<Rightarrow>
     (case die_on_error
             (amqp_basic_publish conn
                (send_request exchange_name routingkey messagebody reply_to_copy))
             ''Publishing'' of
        Inl e \<Rightarrow> Thrown e
      | Inr _ \<Rightarrow>
     (case die_on_amqp_error (basic_consume_reply conn) ''Consuming'' of
        Inl e \<Rightarrow> Thrown e
      | Inr _ \<Rightarrow> send_wait_method (QueryInterface_of_json lib) waits))))))"

text \<open>A frame with the correlation id of its properties rewritten by \<open>g\<close>.\<close>

fun relabel :: "(string \<Rightarrow> string) \<Rightarrow> amqp_frame \<Rightarrow> amqp_frame" where
  "relabel g (Header_frame body_size p) =
     Header_frame body_size (p\<lparr>props_correlation_id := g (props_correlation_id p)\<rparr>)"
| "relabel g (Method_frame method_id) = Method_frame method_id"
| "relabel g (Body_frame fragment) = Body_frame fragment"
| "relabel g Heartbeat_frame = Heartbeat_frame"

section \<open>message-broker.cpp: listen\<close>

text \<open>
  The handler is a function pointer
  \<^verbatim>\<open>bool (*callback)(const Request &request, Response &response)\<close>: it returns its
  verdict and the response as it leaves it.
\<close>

type_synonym 'j handler = "'j QueryInterface \<Rightarrow> 'j QueryInterface \<Rightarrow> bool \<times> 'j QueryInterface"

text \<open>
  The body of a delivery and its reply-to are buffers of a given length with no
  terminating zero; \<open>listen\<close> reads both as C strings, from the buffer's first byte to
  the first zero byte, in the buffer or in the memory that follows it. The tails are the
  bytes that follow the two buffers, as far as they may be read.
\<close>

record buffer_tails =
  after_body :: string
  after_reply_to :: string

definition c_string :: "string \<Rightarrow> string \<Rightarrow> string outcome" where
  "c_string buffer tail =
     (if CHR 0x00 \<in> set (buffer @ tail)
      then Returned (takeWhile (\<lambda>c. c \<noteq> CHR 0x00) (buffer @ tail))
      else Undefined_read)"

text \<open>The properties of the reply: the correlation id is copied from the request.\<close>

definition listen_props :: "amqp_envelope_t \<Rightarrow> string \<Rightarrow> amqp_basic_properties_t" where
  "listen_props envelope reply_to_copy =
     \<lparr>props_flags = [AMQP_BASIC_CONTENT_TYPE_FLAG, AMQP_BASIC_DELIVERY_MODE_FLAG,
                     AMQP_BASIC_REPLY_TO_FLAG, AMQP_BASIC_CORRELATION_ID_FLAG],
      props_content_type = ''application/json'',
      props_delivery_mode = 2,
      props_reply_to = reply_to_copy,
      props_correlation_id = props_correlation_id (message_properties (message envelope))\<rparr>"

text \<open>
  The response is default constructed, the handler runs, and
  \<^verbatim>\<open>if (!callback(request, response)) response.set_type(QUERY_ERROR);\<close>
\<close>

definition listen_respond :: "'j handler \<Rightarrow> 'j QueryInterface \<Rightarrow> 'j QueryInterface outcome" where
  "listen_respond callback request =
     (let handled = callback request QueryInterface_default in
      if \<not> fst handled
      then and_then (snd (set_type (snd handled) QUERY_ERROR))
             (\<lambda>_. Returned (fst (set_type (snd handled) QUERY_ERROR)))
      else Returned (snd handled))"

text \<open>
  The reply handed to \<^verbatim>\<open>amqp_basic_publish\<close>: the default exchange, the request's
  reply-to read as a C string as routing key, the text of the response as body.
\<close>

definition listen_reply :: "amqp_envelope_t \<Rightarrow> string \<Rightarrow> string \<Rightarrow> string \<Rightarrow> basic_publish_args" where
  "listen_reply envelope reply_to_copy routingkey messagebody =
     \<lparr>pub_channel = 1, pub_exchange = [], pub_routing_key = routingkey,
      pub_mandatory = False, pub_immediate = False,
      pub_properties = listen_props envelope reply_to_copy,
      pub_body = messagebody\<rparr>"

text \<open>
  What one delivery makes of the reply, in the order of the source: the request is
  constructed from the body read as a C string, the handler answers, the routing key and
  the text of the response are read.
\<close>

definition listen_prepare ::
  "'j json_glib \<Rightarrow> 'j handler \<Rightarrow> amqp_envelope_t \<Rightarrow> buffer_tails \<Rightarrow> string
     \<Rightarrow> basic_publish_args outcome" where
  "listen_prepare lib callback envelope tails reply_to_copy =
     and_then (c_string (message_body (message envelope)) (after_body tails)) (\<lambda>request_text.
     and_then (QueryInterface_of_json lib request_text) (\<lambda>request.
     and_then (listen_respond callback request) (\<lambda>response.
     and_then (c_string (props_reply_to (message_properties (message envelope)))
                 (after_reply_to tails)) (\<lambda>routingkey.
     and_then (json_str lib response) (\<lambda>messagebody.
       Returned (listen_reply envelope reply_to_copy routingkey messagebody))))))"

text \<open>
  The publish of a reply that could be prepared. The result is the list of the messages
  handed to \<^verbatim>\<open>amqp_basic_publish\<close> and how the step ends: \<open>Returned None\<close> when the loop
  goes on to the next delivery.
\<close>

fun listen_publish ::
  "amqp_connection \<Rightarrow> basic_publish_args outcome \<Rightarrow> basic_publish_args list \<times> int option outcome" where
  "listen_publish conn (Returned args) =
     ([args], case die_on_error (amqp_basic_publish conn args) ''Publishing'' of
                Inl e \<Rightarrow> Thrown e
              | Inr _ \<Rightarrow> Returned None)"
| "listen_publish conn (Thrown e) = ([], Thrown e)"
| "listen_publish conn Aborted = ([], Aborted)"
| "listen_publish conn Undefined_read = ([], Undefined_read)"
| "listen_publish conn Undefined_behaviour = ([], Undefined_behaviour)"
| "listen_publish conn Blocked = ([], Blocked)"

text \<open>
  One delivery of the serve loop; \<open>Returned (Some 1)\<close> is the \<^verbatim>\<open>return 1\<close> of the
  thread's function when the reply-to cannot be copied.
\<close>

definition listen_delivery ::
  "'j json_glib \<Rightarrow> amqp_connection \<Rightarrow> 'j handler \<Rightarrow> amqp_envelope_t \<Rightarrow> buffer_tails
     \<Rightarrow> basic_publish_args list \<times> int option outcome" where
  "listen_delivery lib conn callback envelope tails =
     (case amqp_bytes_malloc_dup conn (props_reply_to (message_properties (message envelope))) of
        None \<Rightarrow> ([], Returned (Some 1))
      | Some reply_to_copy \<Rightarrow>
          listen_publish conn (listen_prepare lib callback envelope tails reply_to_copy))"

text \<open>
  The serve loop on the answers of \<^verbatim>\<open>amqp_consume_message\<close> to come, each with the memory
  after its buffers (it is called with no timeout, so it waits when nothing comes): an
  answer that is not normal leaves the loop, \<open>Returned None\<close>.
\<close>

fun listen_loop ::
  "'j json_glib \<Rightarrow> amqp_connection \<Rightarrow> 'j handler
     \<Rightarrow> (amqp_rpc_reply_t \<times> amqp_envelope_t \<times> buffer_tails) list
     \<Rightarrow> basic_publish_args list \<times> int option outcome" where
  "listen_loop lib conn callback [] = ([], Blocked)"
| "listen_loop lib conn callback ((res, envelope, tails) # answers) =
     (if AMQP_RESPONSE_NORMAL \<noteq> reply_type res then ([], Returned None)
      else (case listen_delivery lib conn callback envelope tails of
              (published, Returned None) \<Rightarrow>
                (let rest = listen_loop lib conn callback answers
                 in (published @ fst rest, snd rest))
            | (published, other) \<Rightarrow> (published, other)))"

text \<open>
  The function of the worker thread: the queue is declared, bound and consumed, then the
  loop runs. Its return type is deduced from \<^verbatim>\<open>return 1\<close>; when the loop is left, the
  function frees the queue name and flows off its end without a value.
\<close>

definition listen_thread ::
  "'j json_glib \<Rightarrow> amqp_connection \<Rightarrow> 'j handler
     \<Rightarrow> (amqp_rpc_reply_t \<times> amqp_envelope_t \<times> buffer_tails) list
     \<Rightarrow> basic_publish_args list \<times> int outcome" where
  "listen_thread lib conn callback answers =
     (case die_on_amqp_error (queue_declare_reply conn) ''Declaring queue'' of
        Inl e \<Rightarrow> ([], Thrown e)
      | Inr _ \<Rightarrow>
     (case amqp_bytes_malloc_dup conn (queue_declare_queue conn) of
        None \<Rightarrow> ([], Returned 1)
      | Some queuename \<Rightarrow>
     (case die_on_amqp_error (queue_bind_reply conn) ''Binding queue'' of
        Inl e \<Rightarrow> ([], Thrown e)
      | Inr _ \<Rightarrow>
     (case die_on_amqp_error (basic_consume_reply conn) ''Consuming'' of
        Inl e \<Rightarrow> ([], Thrown e)
      | Inr _ \<Rightarrow>
          (let served = listen_loop lib conn callback answers in
           (fst served,
            and_then (snd served)
              (\<lambda>returned. case returned of
                             None \<Rightarrow> Undefined_behaviour
                           | Some v \<Rightarrow> Returned v)))))))"

text \<open>
  \<^verbatim>\<open>int MessageBroker::listen(const char *exchange, const char *bindingkey, bool
  (*callback)(...))\<close> starts the thread and joins it. An exception that leaves the
  thread's function ends the process (\<^verbatim>\<open>std::terminate\<close>); when the thread returns,
  \<open>listen\<close> itself flows off its end without the \<^verbatim>\<open>int\<close> it declares.
\<close>

definition listen ::
  "'j json_glib \<Rightarrow> amqp_connection \<Rightarrow> 'j handler
     \<Rightarrow> (amqp_rpc_reply_t \<times> amqp_envelope_t \<times> buffer_tails) list
     \<Rightarrow> basic_publish_args list \<times> int outcome" where
  "listen lib conn callback answers =
     (let worker_thread = listen_thread lib conn callback answers in
      (fst worker_thread,
       case snd worker_thread of
         Returned v \<Rightarrow> Undefined_behaviour
       | Thrown e \<Rightarrow> Aborted
       | Aborted \<Rightarrow> Aborted
       | Undefined_read \<Rightarrow> Undefined_read
       | Undefined_behaviour \<Rightarrow> Undefined_behaviour
       | Blocked \<Rightarrow> Blocked))"

section \<open>Values for the instances\<close>

text \<open>
  The texts of the instances: a request body, and two replies that differ in their id.
\<close>

definition reply_one :: string where
  \<open>reply_one = ''{"id":1,"type":"response","body":{}}''\<close>

definition reply_two :: string where
  \<open>reply_two = ''{"id":2,"type":"response","body":{}}''\<close>

text \<open>
  What the JSON library answers on these texts; a node is kept as its text. The table
  has no entry for any other text (it says that the text does not parse), and no
  instance relies on that.
\<close>

definition instance_json :: "string json_glib" where
  \<open>instance_json =
     \<lparr>parse = (\<lambda>text. if text = ''{}'' then Some ''{}'' else None),
      generate = (\<lambda>i t node. if i = 0 \<and> t = [] \<and> node = ''{}''
                             then ''{"id":0,"type":"","body":{}}'' else []),
      reader_int = (\<lambda>text member.
                      if text = reply_one \<and> member = ''id'' then 1
                      else if text = reply_two \<and> member = ''id'' then 2 else 0),
      reader_string = (\<lambda>text member.
                      if (text = reply_one \<or> text = reply_two) \<and> member = ''type''
                      then Some ''response'' else None),
      reader_object = (\<lambda>text member. ''{}'')\<rparr>\<close>

text \<open>A connection on which every request succeeds; the queue declared is \<open>q1\<close>.\<close>

definition willing_connection :: amqp_connection where
  "willing_connection =
     \<lparr>queue_declare_reply = normal_reply, queue_declare_queue = ''q1'',
      amqp_bytes_malloc_dup = (\<lambda>bytes. Some bytes),
      queue_bind_reply = normal_reply,
      amqp_basic_publish = (\<lambda>args. 0),
      basic_consume_reply = normal_reply\<rparr>"

text \<open>
  A request delivered to a server: its body is a JSON request, its reply-to the queue
  \<open>q1\<close>, its correlation id 1, and a zero byte follows each of the two buffers.
\<close>

definition request_delivery :: amqp_envelope_t where
  \<open>request_delivery =
     \<lparr>channel = 1, consumer_tag = ''ctag'', delivery_tag = 1, redelivered = False,
      exchange = ''amq.direct'', routing_key = ''test'',
      message = \<lparr>message_properties = send_props ''q1'',
                 message_body = ''{"id":0,"type":"","body":{}}''\<rparr>\<rparr>\<close>

definition zero_tails :: buffer_tails where
  "zero_tails = \<lparr>after_body = [CHR 0x00], after_reply_to = [CHR 0x00]\<rparr>"

text \<open>An envelope delivered on channel \<open>k\<close> with empty strings, for the instances below.\<close>

definition delivery_for :: "amqp_channel_t \<Rightarrow> amqp_envelope_t" where
  "delivery_for k =
     \<lparr>channel = k, consumer_tag = [], delivery_tag = 1, redelivered = False, exchange = [],
      routing_key = [],
      message = \<lparr>message_properties =
                   \<lparr>props_flags = [], props_content_type = [], props_delivery_mode = 0,
                    props_reply_to = [], props_correlation_id = []\<rparr>,
                 message_body = []\<rparr>\<rparr>"

section \<open>Theorems\<close>

subsection \<open>Acknowledgements\<close>

lemma die_on_error_Inl: "(\<exists>e. die_on_error x c = Inl e) = (x < 0)"
  by (simp add: die_on_error_def)

text \<open>
  Claim C8. For every call of \<open>ack\<close> and of \<open>nack\<close>, the operation throws exactly when
  the transport reports a negative status, and otherwise returns the status the
  transport reported, unchanged.
\<close>

theorem ack_nack_status:
  "((\<exists>e. ack basic_ack this tag multiple = Inl e) = (basic_ack (chan_id this) tag multiple < 0))
   \<and> (\<not> basic_ack (chan_id this) tag multiple < 0 \<longrightarrow>
        ack basic_ack this tag multiple = Inr (basic_ack (chan_id this) tag multiple))
   \<and> ((\<exists>e. nack basic_nack this tag multiple requeue = Inl e)
        = (basic_nack (chan_id this) tag multiple requeue < 0))
   \<and> (\<not> basic_nack (chan_id this) tag multiple requeue < 0 \<longrightarrow>
        nack basic_nack this tag multiple requeue
          = Inr (basic_nack (chan_id this) tag multiple requeue))"
  by (simp add: ack_def nack_def die_on_error_def Let_def)

theorem ack_nack_status_witness:
  "ack (\<lambda>c t m. if t = 7 then 0 else - 13) \<lparr>chan_id = 1, connection = 0\<rparr> 7 False = Inr 0
   \<and> (\<exists>e. ack (\<lambda>c t m. if t = 7 then 0 else - 13) \<lparr>chan_id = 1, connection = 0\<rparr> 8 False = Inl e)
   \<and> nack (\<lambda>c t m r. if t = 7 then 0 else - 13) \<lparr>chan_id = 1, connection = 0\<rparr> 7 False True = Inr 0
   \<and> (\<exists>e. nack (\<lambda>c t m r. if t = 7 then 0 else - 13) \<lparr>chan_id = 1, connection = 0\<rparr> 8 False True = Inl e)"
  using ack_nack_status [of "\<lambda>c t m. if t = 7 then 0 else - 13" "\<lparr>chan_id = 1, connection = 0\<rparr>" 7 False
      "\<lambda>c t m r. if t = 7 then 0 else - 13" True]
    ack_nack_status [of "\<lambda>c t m. if t = 7 then 0 else - 13" "\<lparr>chan_id = 1, connection = 0\<rparr>" 8 False
      "\<lambda>c t m r. if t = 7 then 0 else - 13" True]
  by simp

subsection \<open>Flow control\<close>

text \<open>
  Claim C7. \<open>qos\<close> hands its arguments to the transport in the other order: the prefetch
  count lands on the transport's prefetch size, and the prefetch size, cut to 16 bits,
  on the transport's prefetch count. For \<open>qos(0, 10, false)\<close> the transport is asked for
  a prefetch size of 10 and a prefetch count of 0; for \<open>qos(70000, 1, false)\<close> for a
  prefetch size of 1 and a prefetch count of 4464.
\<close>

theorem qos_swaps_the_limits:
  "qos basic_qos rpc_reply this 0 10 False
     = (if \<not> basic_qos (chan_id this) 10 0 False
        then die_on_amqp_error rpc_reply ''basic.qos'' else Inr ())
   \<and> qos basic_qos rpc_reply this 70000 1 False
     = (if \<not> basic_qos (chan_id this) 1 4464 False
        then die_on_amqp_error rpc_reply ''basic.qos'' else Inr ())"
proof -
  have truncated: "(ucast (70000 :: 32 word) :: 16 word) = 4464"
    by simp
  show ?thesis
    unfolding qos_def truncated by simp
qed

subsection \<open>Responses\<close>

text \<open>
  Claim C10. For every response whose properties carry no type, \<open>ok\<close> is true, and it is
  the value \<open>ok\<close> has for the same response with any type other than the error type: \<open>ok\<close>
  alone does not tell a reply without a type from a success.
\<close>

theorem ok_without_type:
  "type (properties this) = None \<Longrightarrow>
     ok this
     \<and> (t \<noteq> MESSAGE_TYPE_ERROR \<longrightarrow>
          ok (this\<lparr>properties := (properties this)\<lparr>type := Some t\<rparr>\<rparr>) = ok this)"
  by (simp add: ok_def)

theorem ok_without_type_witness:
  "type (properties \<lparr>body = ''{}'', properties = AmqpProperties_default\<rparr>) = None
   \<and> ok \<lparr>body = ''{}'', properties = AmqpProperties_default\<rparr>
   \<and> ok (\<lparr>body = ''{}'', properties = AmqpProperties_default\<rparr>
          \<lparr>properties := AmqpProperties_default\<lparr>type := Some MESSAGE_TYPE_RESPONSE\<rparr>\<rparr>)"
proof -
  let ?r = "\<lparr>body = ''{}'', properties = AmqpProperties_default\<rparr>"
  have h: "type (properties ?r) = None"
    by (simp add: AmqpProperties_default_def)
  have ne: "MESSAGE_TYPE_RESPONSE \<noteq> MESSAGE_TYPE_ERROR"
    by (simp add: MESSAGE_TYPE_RESPONSE_def MESSAGE_TYPE_ERROR_def)
  from ok_without_type [OF h, of MESSAGE_TYPE_RESPONSE] ne h show ?thesis by simp
qed

subsection \<open>The dispatch loop\<close>

lemma worker_empty_pool:
  "pool this = [] \<Longrightarrow> worker this heap answers = ([], Continue (this, heap))"
  by (induction answers) (simp_all add: dispatch_iteration_def)

text \<open>
  Claim C9. An iteration of the dispatch loop polls the transport exactly when the
  registry is not empty. With an empty registry the iteration calls nothing and leaves
  the connection and the channels as they are, and so does the loop, for any number of
  iterations.
\<close>

theorem dispatch_polls_only_when_registered:
  "(Amqp_consume_message \<in> set (fst (dispatch_iteration this heap answer))) = (pool this \<noteq> [])
   \<and> (pool this = [] \<longrightarrow> dispatch_iteration this heap answer = ([], Continue (this, heap)))
   \<and> (pool this = [] \<longrightarrow> worker this heap answers = ([], Continue (this, heap)))"
  by (simp add: worker_empty_pool) (simp add: dispatch_iteration_def Let_def split: channel_ptr.splits)

theorem dispatch_polls_only_when_registered_witness:
  "pool \<lparr>pool = [], run = True\<rparr> = []
   \<and> dispatch_iteration \<lparr>pool = [], run = True\<rparr> [] (normal_reply, delivery_for 1)
       = ([], Continue (\<lparr>pool = [], run = True\<rparr>, []))
   \<and> worker \<lparr>pool = [], run = True\<rparr> [] [(normal_reply, delivery_for 1), (normal_reply, delivery_for 2)]
       = ([], Continue (\<lparr>pool = [], run = True\<rparr>, []))"
  using dispatch_polls_only_when_registered [of "\<lparr>pool = [], run = True\<rparr>" "[]"
      "(normal_reply, delivery_for 1)" "[(normal_reply, delivery_for 1), (normal_reply, delivery_for 2)]"]
  by (simp del: worker.simps)

text \<open>
  A delivery for a registered channel is appended to that channel's queue; the registry
  is as it was.
\<close>

lemma dispatch_registered:
  assumes "map_of (pool this) (channel envelope) = Some (Ptr a)"
    and "a < length heap"
    and "reply_type res = AMQP_RESPONSE_NORMAL"
  shows "dispatch_iteration this heap (res, envelope)
           = ([Amqp_maybe_release_buffers, Amqp_consume_message],
              Continue (this, heap[a := push_envelope (heap ! a) envelope]))"
proof -
  have "pool this \<noteq> []"
    using assms(1) by auto
  then show ?thesis
    using assms by (simp add: dispatch_iteration_def pool_index_def Let_def)
qed

text \<open>
  A delivery for a channel id with no entry in the registry: the lookup inserts a null
  entry under that id and the call through it is a fault.
\<close>

lemma dispatch_unregistered:
  assumes "pool this \<noteq> []"
    and "map_of (pool this) (channel envelope) = None"
    and "reply_type res = AMQP_RESPONSE_NORMAL"
  shows "dispatch_iteration this heap (res, envelope)
           = ([Amqp_maybe_release_buffers, Amqp_consume_message],
              Fault (this\<lparr>pool := pool this @ [(channel envelope, nullptr)]\<rparr>, heap))"
  using assms by (simp add: dispatch_iteration_def pool_index_def Let_def)

text \<open>
  Claim C3. With channel 1 registered and a delivery polled for channel 2, which is not
  registered, the iteration does not discard the delivery: it adds the entry
  \<open>(2, nullptr)\<close> to the registry and ends in a fault, the call of \<^verbatim>\<open>push_envelope\<close>
  through the null pointer.
\<close>

theorem dispatch_unregistered_channel_faults:
  "dispatch_iteration \<lparr>pool = [(1, Ptr 0)], run = True\<rparr>
       [\<lparr>chan_id = 1, connection = 0, envelopes = []\<rparr>] (normal_reply, delivery_for 2)
     = ([Amqp_maybe_release_buffers, Amqp_consume_message],
        Fault (\<lparr>pool = [(1, Ptr 0), (2, nullptr)], run = True\<rparr>,
               [\<lparr>chan_id = 1, connection = 0, envelopes = []\<rparr>]))"
  by (simp add: dispatch_iteration_def pool_index_def normal_reply_def delivery_for_def Let_def)

subsection \<open>Channel ids\<close>

lemma execute_replicate_Construct:
  "serial (execute p (replicate n (Construct c normal_reply))) = serial p + of_nat n
   \<and> map chan_id (alive (execute p (replicate n (Construct c normal_reply))))
       = map chan_id (alive p) @ map (\<lambda>i. serial p + of_nat (Suc i)) [0..<n]"
proof (induction n arbitrary: p)
  case 0
  then show ?case by simp
next
  case (Suc n)
  let ?q = "perform p (Construct c normal_reply)"
  have q: "serial ?q = serial p + 1" "map chan_id (alive ?q) = map chan_id (alive p) @ [serial p + 1]"
    by (simp_all add: Channel_new_def normal_reply_def Let_def)
  have "map (\<lambda>i. serial p + of_nat (Suc i)) [0..<Suc n]
         = (serial p + 1) # map (\<lambda>i. serial p + 1 + of_nat (Suc i)) [0..<n]"
    by (simp only: map_upt_Suc) (simp add: add.assoc)
  with Suc [of ?q] q show ?case
    by (simp add: add.assoc del: upt_Suc perform.simps)
qed

lemma set_drop_nth: "set (drop_nth i xs) \<subseteq> set xs"
  by (auto dest: in_set_takeD in_set_dropD)

lemma distinct_map_drop_nth: "distinct (map f xs) \<Longrightarrow> distinct (map f (drop_nth i xs))"
proof (induction xs arbitrary: i)
  case Nil
  then show ?case by simp
next
  case (Cons x xs)
  show ?case
  proof (cases i)
    case 0
    with Cons.prems show ?thesis by simp
  next
    case (Suc k)
    have "f x \<notin> f ` set (drop_nth k xs)"
      using Cons.prems set_drop_nth [of k xs] by auto
    moreover have "distinct (map f (drop_nth k xs))"
      using Cons.IH Cons.prems by simp
    ultimately show ?thesis using Suc by auto
  qed
qed

text \<open>
  The invariant of the counter: after \<open>n\<close> constructions, fewer than 65536, the counter
  is \<open>n\<close> and the ids of the alive channels are distinct numbers from 1 to \<open>n\<close>.
\<close>

lemma ids_invariant:
  "serial p = of_nat n \<Longrightarrow> \<forall>c \<in> set (alive p). 0 < unat (chan_id c) \<and> unat (chan_id c) \<le> n \<Longrightarrow>
   distinct (map chan_id (alive p)) \<Longrightarrow> n + length (filter is_Construct es) < 65536 \<Longrightarrow>
   distinct (map chan_id (alive (execute p es)))"
proof (induction es arbitrary: p n)
  case Nil
  then show ?case by simp
next
  case (Cons e es)
  show ?case
  proof (cases e)
    case (Construct conn r)
    have n: "Suc n < 65536" using Cons.prems(4) Construct by simp
    have un: "unat (of_nat (Suc n) :: 16 word) = Suc n"
      using n by (simp add: unat_of_nat del: of_nat_Suc)
    let ?q = "perform p e"
    have s: "serial ?q = of_nat (Suc n)"
      using Cons.prems(1) Construct by (simp add: Channel_new_def Let_def split: sum.splits)
    have a: "alive ?q = alive p
             \<or> alive ?q = alive p @ [\<lparr>chan_id = of_nat (Suc n), connection = conn, envelopes = []\<rparr>]"
      using Cons.prems(1) Construct by (simp add: Channel_new_def Let_def split: sum.splits)
    have b: "\<forall>c \<in> set (alive ?q). 0 < unat (chan_id c) \<and> unat (chan_id c) \<le> Suc n"
      using a Cons.prems(2) un by (auto simp del: of_nat_Suc perform.simps intro: le_SucI)
    have "of_nat (Suc n) \<notin> chan_id ` set (alive p)"
    proof
      assume "of_nat (Suc n) \<in> chan_id ` set (alive p)"
      then obtain c where "c \<in> set (alive p)" "chan_id c = of_nat (Suc n)" by auto
      with Cons.prems(2) un show False by (auto simp del: of_nat_Suc)
    qed
    then have d: "distinct (map chan_id (alive ?q))"
      using a Cons.prems(3) by (auto simp del: of_nat_Suc perform.simps)
    have "Suc n + length (filter is_Construct es) < 65536"
      using Cons.prems(4) Construct by simp
    from Cons.IH [OF s b d this] show ?thesis by simp
  next
    case (Destroy i)
    let ?q = "perform p e"
    have s: "serial ?q = of_nat n" using Cons.prems(1) Destroy by simp
    have sub: "set (alive ?q) \<subseteq> set (alive p)"
      using Destroy set_drop_nth [of i "alive p"] by simp
    have b: "\<forall>c \<in> set (alive ?q). 0 < unat (chan_id c) \<and> unat (chan_id c) \<le> n"
      using sub Cons.prems(2) by blast
    have "distinct (map chan_id (drop_nth i (alive p)))"
      using Cons.prems(3) by (rule distinct_map_drop_nth)
    then have d: "distinct (map chan_id (alive ?q))" using Destroy by simp
    have "n + length (filter is_Construct es) < 65536"
      using Cons.prems(4) Destroy by simp
    from Cons.IH [OF s b d this] show ?thesis by simp
  qed
qed

text \<open>
  Claim C5, as stated, fails: the counter has 16 bits. After 65537 channels are
  constructed and none is destroyed, two alive channels have the same id (the first and
  the last have id 1).
\<close>

theorem channel_ids_repeat_after_wrap:
  "\<not> distinct (map chan_id (alive (execute initial (replicate 65537 (Construct 0 normal_reply)))))"
proof -
  let ?ids = "map (\<lambda>i. (of_nat (Suc i) :: 16 word)) [0..<65537]"
  have ids: "map chan_id (alive (execute initial (replicate 65537 (Construct 0 normal_reply)))) = ?ids"
    using execute_replicate_Construct [of initial 65537 0] by (simp add: initial_def)
  have "?ids ! 0 = ?ids ! 65536"
    by (simp del: upt_Suc)
  moreover have "(0::nat) < length ?ids" "(65536::nat) < length ?ids"
    by simp_all
  ultimately have "\<not> distinct ?ids"
    unfolding distinct_conv_nth by (metis zero_neq_numeral)
  with ids show ?thesis by simp
qed

text \<open>
  Claim C5, amended. In an execution that constructs and destroys channels one after the
  other, on any connections, and runs the constructor fewer than 65536 times in all
  (whether or not the channel could be opened), the ids of the channels alive at the end
  are pairwise distinct.
\<close>

theorem channel_ids_distinct_below_wrap:
  "length (filter is_Construct es) < 65536 \<Longrightarrow>
     distinct (map chan_id (alive (execute initial es)))"
  using ids_invariant [of initial 0 es] by (simp add: initial_def)

theorem channel_ids_distinct_below_wrap_witness:
  "length (filter is_Construct
             [Construct 0 normal_reply, Construct 1 normal_reply, Destroy 0, Construct 0 normal_reply])
     < 65536
   \<and> distinct (map chan_id (alive (execute initial
        [Construct 0 normal_reply, Construct 1 normal_reply, Destroy 0, Construct 0 normal_reply])))
   \<and> map chan_id (alive (execute initial
        [Construct 0 normal_reply, Construct 1 normal_reply, Destroy 0, Construct 0 normal_reply]))
       = [2, 3]"
  using channel_ids_distinct_below_wrap
    [of "[Construct 0 normal_reply, Construct 1 normal_reply, Destroy 0, Construct 0 normal_reply]"]
  by (simp add: initial_def Channel_new_def normal_reply_def Let_def)

subsection \<open>send: the correlation id\<close>

lemma send_wait_body_relabel:
  "send_wait_body R t rcv (relabel g frame) (map (apsnd (relabel g)) waits)
     = send_wait_body R t rcv frame waits"
proof (induction waits arbitrary: rcv frame)
  case Nil
  then show ?case by (cases frame) simp_all
next
  case (Cons w waits)
  obtain result frame' where w: "w = (result, frame')" by (cases w)
  have last_frame: "(case relabel g frame of Body_frame fragment \<Rightarrow> make_shared (and_then (fragment_text fragment) R) | _ \<Rightarrow> Undefined_read)
      = (case frame of Body_frame fragment \<Rightarrow> make_shared (and_then (fragment_text fragment) R) | _ \<Rightarrow> Undefined_read)"
    by (cases frame) simp_all
  show ?case
    using Cons.IH [of _ frame'] last_frame w by (cases frame') simp_all
qed

lemma send_wait_header_relabel:
  "send_wait_header R (map (apsnd (relabel g)) waits) = send_wait_header R waits"
proof (cases waits)
  case Nil
  then show ?thesis by simp
next
  case (Cons w ws)
  obtain result frame where w: "w = (result, frame)" by (cases w)
  show ?thesis
  proof (cases frame)
    case (Header_frame n p)
    have "send_wait_body R n 0 (relabel g (Header_frame n p)) (map (apsnd (relabel g)) ws)
            = send_wait_body R n 0 (Header_frame n p) ws"
      by (rule send_wait_body_relabel)
    then show ?thesis using Cons w Header_frame by simp
  qed (simp_all add: Cons w)
qed

lemma send_wait_method_relabel:
  "send_wait_method R (map (apsnd (relabel g)) waits) = send_wait_method R waits"
proof (induction waits)
  case Nil
  then show ?case by simp
next
  case (Cons w waits)
  obtain result frame where w: "w = (result, frame)" by (cases w)
  show ?case
    using Cons.IH w send_wait_header_relabel [of R g waits] by (cases frame) simp_all
qed

lemma send_wait_method_skips:
  "\<forall>w \<in> set skipped. \<not> fst w < 0 \<and> snd w \<noteq> Method_frame AMQP_BASIC_DELIVER_METHOD \<Longrightarrow>
     send_wait_method R (skipped @ waits) = send_wait_method R waits"
proof (induction skipped)
  case Nil
  then show ?case by simp
next
  case (Cons w skipped)
  obtain result frame where w: "w = (result, frame)" by (cases w)
  show ?case
    using Cons w by (cases frame) simp_all
qed

text \<open>
  The constructor of a query does not return in defined behaviour: it hands a null
  pointer to \<open>set_type\<close> or runs into the missing return of \<open>set_type\<close>.
\<close>

lemma QueryInterface_of_json_undefined:
  "QueryInterface_of_json lib text = Undefined_behaviour"
  by (simp add: QueryInterface_of_json_def set_type_def Let_def split: option.splits)

text \<open>
  Claim C1, amended. \<open>send\<close> never compares an inbound correlation id with the one it
  published: rewriting the correlation ids of the inbound header frames in any way
  leaves the outcome of the call as it is, and that of its wait loop for any constructor
  of the response. The first delivery on the reply queue, after
  any frames that are not deliveries, ends the wait whatever its correlation id: when
  its body arrives in one fragment of the declared length, the response is constructed
  from the text of that fragment, and the call ends as the construction does.
\<close>

theorem send_ignores_correlation_id:
  "send c conn (map (apsnd (relabel g)) waits) exchange_name routingkey message_text
     = send c conn waits exchange_name routingkey message_text
   \<and> send_wait_method R (map (apsnd (relabel g)) waits) = send_wait_method R waits
   \<and> ((\<forall>w \<in> set skipped. \<not> fst w < 0 \<and> snd w \<noteq> Method_frame AMQP_BASIC_DELIVER_METHOD)
        \<and> 0 < length fragment \<longrightarrow>
      send_wait_method R
        (skipped @ [(0, Method_frame AMQP_BASIC_DELIVER_METHOD),
                    (0, Header_frame (length fragment) p), (0, Body_frame fragment)] @ rest)
        = make_shared (and_then (fragment_text fragment) R))"
proof -
  have "send c conn (map (apsnd (relabel g)) waits) exchange_name routingkey message_text
          = send c conn waits exchange_name routingkey message_text"
    unfolding send_def send_wait_method_relabel by (rule refl)
  moreover have "send_wait_method R
        (skipped @ [(0, Method_frame AMQP_BASIC_DELIVER_METHOD),
                    (0, Header_frame (length fragment) p), (0, Body_frame fragment)] @ rest)
        = make_shared (and_then (fragment_text fragment) R)"
    if "\<forall>w \<in> set skipped. \<not> fst w < 0 \<and> snd w \<noteq> Method_frame AMQP_BASIC_DELIVER_METHOD"
      and "0 < length fragment"
    using that send_wait_method_skips [of skipped R] by (cases rest) auto
  ultimately show ?thesis
    using send_wait_method_relabel [of R g waits] by blast
qed

theorem send_ignores_correlation_id_witness:
  "\<not> (0 :: int) < 0
   \<and> Heartbeat_frame \<noteq> Method_frame AMQP_BASIC_DELIVER_METHOD
   \<and> Method_frame 0x000A000B \<noteq> Method_frame AMQP_BASIC_DELIVER_METHOD
   \<and> 0 < length reply_one
   \<and> send_wait_method (QueryInterface_of_json instance_json)
       ([(0, Heartbeat_frame), (0, Method_frame 0x000A000B)]
        @ [(0, Method_frame AMQP_BASIC_DELIVER_METHOD),
           (0, Header_frame (length reply_one) ((send_props ''q1'')\<lparr>props_correlation_id := ''7''\<rparr>)),
           (0, Body_frame reply_one)]
        @ [(0, Heartbeat_frame)])
      = make_shared (and_then (fragment_text reply_one) (QueryInterface_of_json instance_json))"
proof -
  have skipped: "\<forall>w \<in> set [(0 :: int, Heartbeat_frame), (0, Method_frame 0x000A000B)].
       \<not> fst w < 0 \<and> snd w \<noteq> Method_frame AMQP_BASIC_DELIVER_METHOD"
    by (simp add: AMQP_BASIC_DELIVER_METHOD_def)
  have nonempty: "0 < length reply_one"
    by (simp add: reply_one_def)
  from send_ignores_correlation_id [of instance_json willing_connection id "[]" "[]" "[]" "[]"
      "QueryInterface_of_json instance_json"
      "[(0, Heartbeat_frame), (0, Method_frame 0x000A000B)]" reply_one
      "(send_props ''q1'')\<lparr>props_correlation_id := ''7''\<rparr>"
      "[(0, Heartbeat_frame)]"]
    skipped nonempty
  show ?thesis by (simp add: AMQP_BASIC_DELIVER_METHOD_def)
qed

text \<open>
  Claim C1, as stated, fails. The request is published with the correlation id \<open>1\<close>. A
  delivery with the correlation id \<open>2\<close> arrives first, and the delivery with the
  correlation id \<open>1\<close> after it: the first one is not skipped, the text handed to the
  constructor of the response is the body of the delivery with id \<open>2\<close>. With the
  delivery with id \<open>2\<close> alone on the queue, \<open>send\<close> does not go on waiting for a reply
  that matches: it runs the constructor on that delivery.
\<close>

theorem send_accepts_foreign_correlation_id:
  \<open>props_correlation_id
      (pub_properties (send_request ''amq.direct'' ''test'' ''{"id":0,"type":"","body":{}}'' ''q1''))
     = ''1''
   \<and> send_wait_method Returned
        [(0, Method_frame AMQP_BASIC_DELIVER_METHOD),
         (0, Header_frame (length reply_two) ((send_props ''q1'')\<lparr>props_correlation_id := ''2''\<rparr>)),
         (0, Body_frame reply_two),
         (0, Method_frame AMQP_BASIC_DELIVER_METHOD),
         (0, Header_frame (length reply_one) ((send_props ''q1'')\<lparr>props_correlation_id := ''1''\<rparr>)),
         (0, Body_frame reply_one)]
       = Returned (Some reply_two)
   \<and> reply_two \<noteq> reply_one
   \<and> send instance_json willing_connection
        [(0, Method_frame AMQP_BASIC_DELIVER_METHOD),
         (0, Header_frame (length reply_two) ((send_props ''q1'')\<lparr>props_correlation_id := ''2''\<rparr>)),
         (0, Body_frame reply_two)]
        ''amq.direct'' ''test'' ''{}''
       = make_shared (QueryInterface_of_json instance_json reply_two)
   \<and> make_shared (QueryInterface_of_json instance_json reply_two) \<noteq> Blocked\<close>
  by (simp add: send_def send_request_def send_props_def willing_connection_def normal_reply_def
      die_on_error_def instance_json_def json_str_def set_body_def QueryInterface_default_def
      QueryInterface_of_json_def set_type_def make_shared_def
      fragment_text_def reply_one_def reply_two_def Let_def)

subsection \<open>send: failed waits and fragments\<close>

lemma make_shared_not_empty: "make_shared x \<noteq> Returned None"
  by (cases x) (simp_all add: make_shared_def)

lemma make_shared_not_Blocked: "x \<noteq> Blocked \<Longrightarrow> make_shared x \<noteq> Blocked"
  by (cases x) (simp_all add: make_shared_def)

lemma fragment_text_then_not_Blocked:
  "\<forall>text. R text \<noteq> Blocked \<Longrightarrow> and_then (fragment_text fragment) R \<noteq> Blocked"
  by (simp add: fragment_text_def)

text \<open>
  The lemmas on a wait that fails are about constructors that do not block, as the
  constructor of the source.
\<close>

lemma send_wait_body_fails:
  "\<forall>text. R text \<noteq> Blocked \<Longrightarrow> send_wait_body R t rcv frame waits = Blocked \<Longrightarrow> result < 0 \<Longrightarrow>
     send_wait_body R t rcv frame (waits @ (result, f) # rest) = Returned None"
proof (induction waits arbitrary: rcv frame)
  case Nil
  then show ?case
    by (auto simp add: make_shared_not_Blocked fragment_text_then_not_Blocked
        split: if_splits amqp_frame.splits)
next
  case (Cons w waits)
  obtain r frame' where w: "w = (r, frame')" by (cases w)
  show ?case
    using Cons.prems Cons.IH [of _ frame'] w
    by (cases frame')
      (auto simp add: make_shared_not_Blocked fragment_text_then_not_Blocked
        split: if_splits amqp_frame.splits)
qed

lemma send_wait_header_fails:
  assumes "\<forall>text. R text \<noteq> Blocked" and "send_wait_header R waits = Blocked" and "result < 0"
  shows "send_wait_header R (waits @ (result, f) # rest) = Returned None"
proof (cases waits)
  case Nil
  with assms show ?thesis by simp
next
  case (Cons w ws)
  obtain r frame where w: "w = (r, frame)" by (cases w)
  show ?thesis
    using assms Cons w send_wait_body_fails [of R _ 0 frame ws result f rest]
    by (cases frame) (simp_all split: if_splits)
qed

lemma send_wait_method_fails:
  "\<forall>text. R text \<noteq> Blocked \<Longrightarrow> send_wait_method R waits = Blocked \<Longrightarrow> result < 0 \<Longrightarrow>
     send_wait_method R (waits @ (result, f) # rest) = Returned None"
proof (induction waits)
  case Nil
  then show ?case by simp
next
  case (Cons w waits)
  obtain r frame where w: "w = (r, frame)" by (cases w)
  show ?case
    using Cons.prems Cons.IH w send_wait_header_fails [of R waits result f rest]
    by (cases frame) (simp_all split: if_splits)
qed

lemma send_wait_body_empty:
  "rcv \<le> t \<Longrightarrow> send_wait_body R t rcv frame waits = Returned None \<Longrightarrow> \<exists>w \<in> set waits. fst w < 0"
proof (induction waits arbitrary: rcv frame)
  case Nil
  then show ?case by (simp add: make_shared_not_empty split: if_splits amqp_frame.splits)
next
  case (Cons w waits)
  obtain r frame' where w: "w = (r, frame')" by (cases w)
  show ?case
    using Cons.prems Cons.IH [of _ frame'] w
    by (cases frame') (auto simp add: make_shared_not_empty split: if_splits amqp_frame.splits)
qed

lemma send_wait_header_empty:
  assumes "send_wait_header R waits = Returned None"
  shows "\<exists>w \<in> set waits. fst w < 0"
proof (cases waits)
  case Nil
  with assms show ?thesis by simp
next
  case (Cons w ws)
  obtain r frame where w: "w = (r, frame)" by (cases w)
  show ?thesis
    using assms Cons w send_wait_body_empty [of 0 _ R frame ws]
    by (cases frame) (auto split: if_splits)
qed

lemma send_wait_method_empty:
  "send_wait_method R waits = Returned None \<Longrightarrow> \<exists>w \<in> set waits. fst w < 0"
proof (induction waits)
  case Nil
  then show ?case by simp
next
  case (Cons w waits)
  obtain r frame where w: "w = (r, frame)" by (cases w)
  show ?case
    using Cons.prems Cons.IH w send_wait_header_empty [of R waits]
    by (cases frame) (auto split: if_splits)
qed

lemma send_Blocked:
  "send c conn waits e r m = Blocked \<Longrightarrow>
     send c conn ws e r m = send_wait_method (QueryInterface_of_json c) ws"
  by (auto simp add: send_def json_str_def simp del: die_on_amqp_error.simps
      split: sum.splits option.splits)

text \<open>
  Claim C2, amended. \<open>send\<close> takes no timeout. Whenever it is waiting for a frame and the
  wait fails (a negative status), it returns the empty result, also when the body has
  not reached the declared length yet; and the wait loop returns the empty result only
  after a wait that failed.
\<close>

theorem send_empty_on_failed_wait:
  "(send c conn waits exchange_name routingkey message_text = Blocked \<and> result < 0 \<longrightarrow>
      send c conn (waits @ (result, frame) # rest) exchange_name routingkey message_text
        = Returned None)
   \<and> (send_wait_method R waits' = Returned None \<longrightarrow> (\<exists>w \<in> set waits'. fst w < 0))"
proof -
  have "send c conn (waits @ (result, frame) # rest) exchange_name routingkey message_text
          = Returned None"
    if blocked: "send c conn waits exchange_name routingkey message_text = Blocked" and neg: "result < 0"
  proof -
    have "send_wait_method (QueryInterface_of_json c) waits = Blocked"
      using send_Blocked [OF blocked, of waits] blocked by simp
    moreover have "\<forall>text. QueryInterface_of_json c text \<noteq> Blocked"
      by (simp add: QueryInterface_of_json_undefined)
    ultimately have "send_wait_method (QueryInterface_of_json c) (waits @ (result, frame) # rest) = Returned None"
      using neg send_wait_method_fails [of "QueryInterface_of_json c" waits result frame rest] by blast
    then show ?thesis
      using send_Blocked [OF blocked, of "waits @ (result, frame) # rest"] by simp
  qed
  then show ?thesis
    using send_wait_method_empty [of R waits'] by blast
qed

theorem send_empty_on_failed_wait_witness:
  "send instance_json willing_connection
       [(0, Heartbeat_frame), (0, Method_frame AMQP_BASIC_DELIVER_METHOD),
        (0, Header_frame 4 (send_props ''q1'')), (0, Body_frame ''ab'')]
       ''amq.direct'' ''test'' ''{}'' = Blocked
   \<and> send instance_json willing_connection
       ([(0, Heartbeat_frame), (0, Method_frame AMQP_BASIC_DELIVER_METHOD),
         (0, Header_frame 4 (send_props ''q1'')), (0, Body_frame ''ab'')]
        @ (- 13, Heartbeat_frame) # [(0, Body_frame ''cd'')])
       ''amq.direct'' ''test'' ''{}'' = Returned None
   \<and> send_wait_method (QueryInterface_of_json instance_json)
       [(0, Heartbeat_frame), (- 13, Heartbeat_frame)]
       = Returned None
   \<and> (\<exists>w \<in> set [(0 :: int, Heartbeat_frame), (- 13, Heartbeat_frame)]. fst w < 0)"
proof -
  let ?ws = "[(0, Heartbeat_frame), (0, Method_frame AMQP_BASIC_DELIVER_METHOD),
        (0, Header_frame 4 (send_props ''q1'')), (0, Body_frame ''ab'')]"
  have blocked: "send instance_json willing_connection ?ws ''amq.direct'' ''test'' ''{}'' = Blocked"
    by (simp add: send_def willing_connection_def normal_reply_def die_on_error_def
        instance_json_def json_str_def set_body_def QueryInterface_default_def)
  have empty: "send_wait_method (QueryInterface_of_json instance_json)
                 [(0, Heartbeat_frame), (- 13, Heartbeat_frame)] = Returned None"
    by simp
  from send_empty_on_failed_wait [of instance_json willing_connection ?ws "''amq.direct''" "''test''"
      "''{}''" "- 13" Heartbeat_frame "[(0, Body_frame ''cd'')]" "QueryInterface_of_json instance_json"
      "[(0, Heartbeat_frame), (- 13, Heartbeat_frame)]"]
    blocked empty
  show ?thesis by simp
qed

text \<open>
  Claim C2, as stated, fails. When a frame that is not a body fragment arrives while the
  body is shorter than the declared length, the body never reaches that length and the
  call does not return the empty result: the process is aborted. When no frame arrives,
  nothing bounds the wait and the call does not return.
\<close>

theorem send_aborts_or_blocks:
  "send instance_json willing_connection
       [(0, Method_frame AMQP_BASIC_DELIVER_METHOD), (0, Header_frame 4 (send_props ''q1'')),
        (0, Body_frame ''ab''), (0, Heartbeat_frame)]
       ''amq.direct'' ''test'' ''{}'' = Aborted
   \<and> send instance_json willing_connection [] ''amq.direct'' ''test'' ''{}'' = Blocked"
  by (simp add: send_def willing_connection_def normal_reply_def die_on_error_def
      instance_json_def json_str_def set_body_def QueryInterface_default_def)

text \<open>
  A body with no zero byte that arrives in one fragment is the text the response is
  constructed from.
\<close>

lemma send_single_fragment:
  "0 < length fragment \<Longrightarrow> CHR 0x00 \<notin> set fragment \<Longrightarrow>
   send_wait_method R [(0, Method_frame AMQP_BASIC_DELIVER_METHOD),
                       (0, Header_frame (length fragment) p), (0, Body_frame fragment)]
     = make_shared (R fragment)"
  by (simp add: fragment_text_def)

text \<open>
  Claim C4. For a body of four bytes that arrives as the fragments \<open>ab\<close> and \<open>cd\<close>, the
  response is constructed from \<open>cd\<close>, the last fragment, and not from \<open>abcd\<close>: for any
  constructor the call ends as the construction from \<open>cd\<close> does, a constructor that
  returns gives the response built from \<open>cd\<close>, and so it is in \<open>send\<close> with the
  constructor of the source.
\<close>

theorem send_builds_response_from_last_fragment:
  "send_wait_method R
       [(0, Method_frame AMQP_BASIC_DELIVER_METHOD), (0, Header_frame 4 p),
        (0, Body_frame ''ab''), (0, Body_frame ''cd'')]
     = make_shared (R ''cd'')
   \<and> send_wait_method (\<lambda>text. Returned (R' text))
       [(0, Method_frame AMQP_BASIC_DELIVER_METHOD), (0, Header_frame 4 p),
        (0, Body_frame ''ab''), (0, Body_frame ''cd'')]
     = Returned (Some (R' ''cd''))
   \<and> send instance_json willing_connection
       [(0, Method_frame AMQP_BASIC_DELIVER_METHOD), (0, Header_frame 4 (send_props ''q1'')),
        (0, Body_frame ''ab''), (0, Body_frame ''cd'')]
       ''amq.direct'' ''test'' ''{}''
     = make_shared (QueryInterface_of_json instance_json ''cd'')"
  by (simp add: send_def willing_connection_def normal_reply_def die_on_error_def
      fragment_text_def instance_json_def json_str_def set_body_def QueryInterface_default_def
      make_shared_def)

subsection \<open>listen\<close>

lemma listen_prepare_undefined:
  "listen_prepare lib callback envelope tails reply_to_copy = Undefined_read
   \<or> listen_prepare lib callback envelope tails reply_to_copy = Undefined_behaviour"
  by (simp add: listen_prepare_def c_string_def QueryInterface_of_json_undefined)

text \<open>
  No delivery makes the serve loop hand a reply to the transport in defined behaviour:
  the request is constructed first, and the constructor does not return.
\<close>

lemma listen_delivery_publishes_nothing:
  "fst (listen_delivery lib conn callback envelope tails) = []"
proof (cases "amqp_bytes_malloc_dup conn (props_reply_to (message_properties (message envelope)))")
  case None
  then show ?thesis by (simp add: listen_delivery_def)
next
  case (Some reply_to_copy)
  with listen_prepare_undefined [of lib callback envelope tails reply_to_copy] show ?thesis
    by (auto simp add: listen_delivery_def)
qed

text \<open>
  Claim C6. For a handler that returns failure, whatever response it leaves, the step
  that forces the error type is the call of \<open>set_type\<close>, which has no return statement:
  its behaviour is undefined. For a request delivered to a server whose handler returns
  failure, \<open>listen\<close> publishes no reply and ends in undefined behaviour.
\<close>

theorem listen_failure_is_undefined:
  "listen_respond (\<lambda>request response. (False, h request response)) request = Undefined_behaviour
   \<and> listen lib willing_connection (\<lambda>request response. (False, h request response))
       [(normal_reply, request_delivery, zero_tails)]
     = ([], Undefined_behaviour)"
proof -
  have respond: "listen_respond (\<lambda>request response. (False, h request response)) request
                   = Undefined_behaviour"
    by (simp add: listen_respond_def set_type_def)
  have "listen_prepare lib (\<lambda>request response. (False, h request response)) request_delivery
          zero_tails ''q1'' = Undefined_behaviour"
    by (simp add: listen_prepare_def c_string_def request_delivery_def zero_tails_def
        QueryInterface_of_json_undefined)
  then have "listen_delivery lib willing_connection (\<lambda>request response. (False, h request response))
               request_delivery zero_tails = ([], Undefined_behaviour)"
    by (simp add: listen_delivery_def willing_connection_def request_delivery_def send_props_def)
  then have "listen_loop lib willing_connection (\<lambda>request response. (False, h request response))
               [(normal_reply, request_delivery, zero_tails)] = ([], Undefined_behaviour)"
    by (simp add: normal_reply_def)
  then have "listen lib willing_connection (\<lambda>request response. (False, h request response))
               [(normal_reply, request_delivery, zero_tails)] = ([], Undefined_behaviour)"
    by (simp add: listen_def listen_thread_def willing_connection_def normal_reply_def Let_def)
  with respond show ?thesis by simp
qed

end
